theory Spec2Isabelle
  imports Complex_Main "HOL-Library.AList"
begin

section \<open>Common data: errors, log records, strings, dictionaries\<close>

text \<open>
  The Python exceptions that the modelled functions can raise.  \<open>SystemExit\<close> is what
  the builtin \<open>exit()\<close> raises; nothing in the modelled files catches it, so it ends
  the process.  \<open>LibraryError\<close> stands for whatever a torch, numpy or scipy call raises
  (shape mismatch, index out of range, failure of the SVD to converge).
\<close>

datatype error =
    KeyError string
  | IndexError
  | AssertionError
  | AttributeError
  | TypeError
  | LibraryError
  | SystemExit

text \<open>
  The records written through \<open>logger\<close>.  The formatted text of a message is
  replaced by a constructor that carries the values formatted into it.
\<close>

datatype level = INFO | WARNING | ERROR

datatype message =
    Decreasing_learning_rate real real
  | Metric_smaller_than_best real real
  | Shrinking_learning_rate real real
  | Best_value string real
  | Saving_mapping string
  | NaN_detected_discriminator
  | NaN_detected_fool_discriminator
  | Building_train_dictionary
  | Empty_intersection
  | New_train_dictionary nat
  | Selected_pairs nat nat

type_synonym log = "(level \<times> message) list"

text \<open>Python's \<open>s.startswith(p)\<close> and \<open>sub in s\<close> on strings.\<close>

fun starts_with :: "string \<Rightarrow> string \<Rightarrow> bool" where
  "starts_with s [] = True"
| "starts_with [] (p # ps) = False"
| "starts_with (c # cs) (p # ps) = (c = p \<and> starts_with cs ps)"

fun str_contains :: "string \<Rightarrow> string \<Rightarrow> bool" where
  "str_contains [] sub = (sub = [])"
| "str_contains (c # cs) sub = (starts_with (c # cs) sub \<or> str_contains cs sub)"

text \<open>Sequencing of computations that may raise.\<close>

definition bind :: "error + 'a \<Rightarrow> ('a \<Rightarrow> error + 'b) \<Rightarrow> error + 'b" where
  "bind r f = (case r of Inl e \<Rightarrow> Inl e | Inr v \<Rightarrow> f v)"

text \<open>
  A Python dict with string keys is an association list: iteration follows insertion
  order, and storing under a key that is present keeps the key's position
  (\<open>AList.update\<close> does both).  \<open>d[k]\<close> raises \<open>KeyError\<close> on a missing key.
\<close>

type_synonym 'v dict = "(string \<times> 'v) list"

definition getitem :: "'v dict \<Rightarrow> string \<Rightarrow> error + 'v" where
  "getitem d k = (case map_of d k of None \<Rightarrow> Inl (KeyError k) | Some v \<Rightarrow> Inr v)"

definition keys :: "'v dict \<Rightarrow> string list" where
  "keys d = map fst d"

text \<open>\<open>xs[0]\<close> and \<open>xs[-1]\<close> on a Python list.\<close>

definition first :: "'a list \<Rightarrow> error + 'a" where
  "first xs = (case xs of [] \<Rightarrow> Inl IndexError | x # _ \<Rightarrow> Inr x)"

definition final :: "'a list \<Rightarrow> error + 'a" where
  "final xs = (if xs = [] then Inl IndexError else Inr (last xs))"

section \<open>The library operations\<close>

text \<open>
  Tensors and arrays are values of a type \<open>'t\<close>; the torch, numpy and scipy routines
  that the repository calls on them are not part of it and are parameters of the model,
  collected in one record.  A routine that can raise returns a sum.  Moving a tensor
  between devices and converting between torch and numpy are the identity.

  \<^item> \<open>size0 t\<close>: \<open>t.size(0)\<close>;
  \<^item> \<open>top2 m q r n\<close>: the two best scores and their reference indices for the first
    \<open>n\<close> rows of the query embeddings \<open>q\<close> against the reference embeddings \<open>r\<close> with
    the scoring method \<open>m\<close> (batched products, \<open>topk\<close>, \<open>get_nn_avg_dist\<close>);
  \<^item> \<open>index_rows t idx\<close>: \<open>t[idx]\<close> for a vector of row numbers;
  \<^item> \<open>transpose t\<close>: \<open>t.transpose(0, 1)\<close>;  \<open>mm a b\<close>: \<open>a.mm(b)\<close>;
  \<^item> \<open>stack_mean ts\<close>: \<open>torch.mean(torch.stack(ts), 0)\<close>, the elementwise mean;
  \<^item> \<open>svd m\<close>: \<open>scipy.linalg.svd(m, full_matrices=True)\<close>;  \<open>dot a b\<close>: \<open>a.dot(b)\<close>;
  \<^item> \<open>copy_from t s\<close>: the content of \<open>t\<close> after \<open>t.copy_(s)\<close>;
  \<^item> \<open>smul c t\<close>, \<open>sub a b\<close>: \<open>c * t\<close> and \<open>a - b\<close>;
  \<^item> \<open>map_optimizer_step w\<close>: the mapping weight after \<open>zero_grad\<close>, \<open>backward\<close>
    and \<open>step\<close> of the mapping optimizer on the current batch.
\<close>

datatype scoring = Nearest_neighbours | Inverted_softmax string | Csls string

record 't ops =
  size0 :: "'t \<Rightarrow> nat"
  top2 :: "scoring \<Rightarrow> 't \<Rightarrow> 't \<Rightarrow> nat \<Rightarrow> error + ((real \<times> real) list \<times> (int \<times> int) list)"
  index_rows :: "'t \<Rightarrow> int list \<Rightarrow> error + 't"
  transpose :: "'t \<Rightarrow> 't"
  mm :: "'t \<Rightarrow> 't \<Rightarrow> error + 't"
  stack_mean :: "'t list \<Rightarrow> error + 't"
  svd :: "'t \<Rightarrow> error + ('t \<times> 't \<times> 't)"
  dot :: "'t \<Rightarrow> 't \<Rightarrow> error + 't"
  copy_from :: "'t \<Rightarrow> 't \<Rightarrow> error + 't"
  smul :: "real \<Rightarrow> 't \<Rightarrow> 't"
  sub :: "'t \<Rightarrow> 't \<Rightarrow> error + 't"
  map_optimizer_step :: "'t \<Rightarrow> 't"

section \<open>Parameters and trainer state\<close>

text \<open>
  The fields of \<open>params\<close> that the modelled code reads.  Python floats are reals here:
  rounding, infinities and NaN in these fields are outside the model.  Integers are
  unbounded, as in Python.
\<close>

record params =
  src_lang :: string
  tgt_lang :: "string list"
  map_optimizer :: string
  min_lr :: real
  lr_decay :: real
  lr_shrink :: real
  exp_path :: string
  dis_lambda :: real
  dis_clip_weights :: real
  map_beta :: real
  batch_size :: int
  dico_method :: string
  dico_build :: string
  dico_max_rank :: int
  dico_max_size :: int
  dico_min_size :: int
  dico_threshold :: real

text \<open>
  What the discriminator step and the mapping step do to objects of the library, in
  order: the calls on the discriminator, the optimizers and the statistics.
\<close>

datatype optimizer = Dis_optimizer | Map_optimizer

datatype pyfloat = Finite real | PosInf | NegInf | NaN

datatype event =
    Discriminator_train
  | Discriminator_eval
  | Stats_append pyfloat
  | Zero_grad optimizer
  | Backward
  | Optimizer_step optimizer
  | Clip_parameters real

text \<open>
  A \<open>Trainer\<close> object.  \<open>mapping\<close> holds \<open>self.mapping[lang].weight.data\<close>, \<open>tgt_emb\<close>
  holds \<open>self.tgt_emb[lang].weight.data\<close>; \<open>dico\<close> is the index table \<open>self.dico\<close>, one
  row per entry; \<open>lr\<close> is \<open>map_optimizer.param_groups[0]['lr']\<close>; \<open>files\<close> is the content
  of the files written by \<open>torch.save\<close>, by path.
\<close>

record 't trainer =
  params :: params
  src_emb :: 't
  tgt_emb :: "'t dict"
  mapping :: "'t dict"
  dico :: "int list list"
  lr :: real
  best_valid_metric :: real
  decrease_lr :: bool
  files :: "string \<rightharpoonup> 't"
  events :: "event list"
  logged :: log

section \<open>Discriminator step and mapping step (trainer.py)\<close>

text \<open>
  IEEE comparison \<open>a != b\<close> and the product of a finite Python float with a loss.
  Overflow of a finite product is not modelled.
\<close>

definition float_ne :: "pyfloat \<Rightarrow> pyfloat \<Rightarrow> bool" where
  "float_ne a b = (a = NaN \<or> b = NaN \<or> a \<noteq> b)"

fun scale :: "real \<Rightarrow> pyfloat \<Rightarrow> pyfloat" where
  "scale c (Finite x) = Finite (c * x)"
| "scale c PosInf = (if c > 0 then PosInf else if c < 0 then NegInf else NaN)"
| "scale c NegInf = (if c > 0 then NegInf else if c < 0 then PosInf else NaN)"
| "scale c NaN = NaN"

text \<open>
  \<open>Trainer.dis_step\<close>.  \<open>loss\<close> is the value that \<open>F.binary_cross_entropy\<close> returns for
  the batch sampled by \<open>get_dis_xy\<close>.  The result is the trainer as the call leaves it
  and either the exception raised or the returned value.
\<close>

definition dis_step :: "'t trainer \<Rightarrow> pyfloat \<Rightarrow> 't trainer \<times> (error + unit)" where
  "dis_step self loss =
    (let self1 = self\<lparr>events := events self @ [Discriminator_train]\<rparr>;
         self2 = self1\<lparr>events := events self1 @ [Stats_append loss]\<rparr>
     in if float_ne loss loss
        then (self2\<lparr>logged := logged self2 @ [(ERROR, NaN_detected_discriminator)]\<rparr>,
              Inl SystemExit)
        else (self2\<lparr>events := events self2 @
                [Zero_grad Dis_optimizer, Backward, Optimizer_step Dis_optimizer,
                 Clip_parameters (dis_clip_weights (params self2))]\<rparr>,
              Inr ()))"

text \<open>\<open>Trainer.orthogonalize\<close>: \<open>W \<leftarrow> (1 + beta) W - beta W (W\<^sup>T W)\<close> when \<open>map_beta > 0\<close>.\<close>

definition orthogonalize :: "'t ops \<Rightarrow> 't trainer \<Rightarrow> error + 't trainer" where
  "orthogonalize ops self =
    (if map_beta (params self) > 0 then
       bind (getitem (mapping self) (src_lang (params self))) (\<lambda>W.
         let beta = map_beta (params self)
         in bind (mm ops (transpose ops W) W) (\<lambda>WtW.
            bind (mm ops W WtW) (\<lambda>WWtW.
            bind (sub ops (smul ops (1 + beta) W) (smul ops beta WWtW)) (\<lambda>R.
            bind (copy_from ops W R) (\<lambda>W'.
              Inr (self\<lparr>mapping := AList.update (src_lang (params self)) W' (mapping self)\<rparr>))))))
     else Inr self)"

text \<open>
  \<open>Trainer.mapping_step\<close>.  \<open>loss\<close> is the value of \<open>F.binary_cross_entropy(preds, 1 - y)\<close>
  before it is multiplied by \<open>dis_lambda\<close>.  The optimizer holds the mapping weight of the
  source language itself, so its step needs no subscript that could fail.
\<close>

definition mapping_step :: "'t ops \<Rightarrow> 't trainer \<Rightarrow> pyfloat \<Rightarrow> 't trainer \<times> (error + int)" where
  "mapping_step ops self loss =
    (if dis_lambda (params self) = 0 then (self, Inr 0)
     else
       let self1 = self\<lparr>events := events self @ [Discriminator_eval]\<rparr>;
           loss1 = scale (dis_lambda (params self1)) loss
       in if float_ne loss1 loss1
          then (self1\<lparr>logged := logged self1 @ [(ERROR, NaN_detected_fool_discriminator)]\<rparr>,
                Inl SystemExit)
          else
            let self2 = self1\<lparr>events := events self1 @
                          [Zero_grad Map_optimizer, Backward, Optimizer_step Map_optimizer]\<rparr>;
                self3 = (case map_of (mapping self2) (src_lang (params self2)) of
                           None \<Rightarrow> self2
                         | Some W \<Rightarrow>
                             self2\<lparr>mapping := AList.update (src_lang (params self2))
                               (map_optimizer_step ops W) (mapping self2)\<rparr>)
            in case orthogonalize ops self3 of
                 Inl e \<Rightarrow> (self3, Inl e)
               | Inr self4 \<Rightarrow> (self4, Inr (2 * batch_size (params self4))))"

text \<open>The events that change parameters through an optimizer.\<close>

fun is_optimizer_event :: "event \<Rightarrow> bool" where
  "is_optimizer_event (Zero_grad opt) = True"
| "is_optimizer_event Backward = True"
| "is_optimizer_event (Optimizer_step opt) = True"
| "is_optimizer_event other = False"

section \<open>Learning-rate schedule and best-model bookkeeping (trainer.py)\<close>

text \<open>
  \<open>Trainer.update_lr\<close>.  The first test returns at once unless the optimizer string
  contains \<open>sgd\<close>.  The decay writes the new rate only when it is smaller; the shrink
  branch reads \<open>to_log[metric]\<close> only when \<open>lr_shrink < 1\<close> (Python's \<open>and\<close>).
\<close>

definition update_lr :: "'t trainer \<Rightarrow> real dict \<Rightarrow> string \<Rightarrow> error + 't trainer" where
  "update_lr self to_log metric =
    (if \<not> str_contains (map_optimizer (params self)) ''sgd'' then Inr self
     else
       let old_lr = lr self;
           new_lr = max (min_lr (params self)) (old_lr * lr_decay (params self));
           self1 = (if new_lr < old_lr
                    then self\<lparr>logged := logged self @ [(INFO, Decreasing_learning_rate old_lr new_lr)],
                              lr := new_lr\<rparr>
                    else self)
       in
         if lr_shrink (params self1) < 1 then
           bind (getitem to_log metric) (\<lambda>m.
             if m \<ge> - 10000000 then
               if m < best_valid_metric self1 then
                 let self2 = self1\<lparr>logged := logged self1 @
                               [(INFO, Metric_smaller_than_best m (best_valid_metric self1))]\<rparr>;
                     self3 = (if decrease_lr self2
                              then
                                let old_lr2 = lr self2;
                                    self2' = self2\<lparr>lr := lr self2 * lr_shrink (params self2)\<rparr>
                                in self2'\<lparr>logged := logged self2' @
                                     [(INFO, Shrinking_learning_rate old_lr2 (lr self2'))]\<rparr>
                              else self2)
                 in Inr (self3\<lparr>decrease_lr := True\<rparr>)
               else Inr self1
             else Inr self1)
         else Inr self1)"

text \<open>\<open>os.path.join(exp_path, 'best_mapping.{}.pth'.format(lang))\<close> on a POSIX system.\<close>

definition best_mapping_path :: "string \<Rightarrow> string \<Rightarrow> string" where
  "best_mapping_path dir lang =
    (let name = ''best_mapping.'' @ lang @ ''.pth''
     in if dir = [] \<or> last dir = CHR ''/'' then dir @ name else dir @ ''/'' @ name)"

text \<open>
  The dict comprehension \<open>{lang: d[lang] for lang in langs}\<close>, started from the
  entries in \<open>acc\<close>.
\<close>

fun select_keys :: "'v dict \<Rightarrow> 'v dict \<Rightarrow> string list \<Rightarrow> error + 'v dict" where
  "select_keys d acc [] = Inr acc"
| "select_keys d acc (l # ls) =
    bind (getitem d l) (\<lambda>v. select_keys d (AList.update l v acc) ls)"

text \<open>The saving loop: one log record and one \<open>torch.save\<close> per language, in list order.\<close>

fun save_all :: "'t trainer \<Rightarrow> 't dict \<Rightarrow> string list \<Rightarrow> error + 't trainer" where
  "save_all self W [] = Inr self"
| "save_all self W (l # ls) =
    (let p = best_mapping_path (exp_path (params self)) l
     in bind (getitem W l) (\<lambda>w.
          save_all (self\<lparr>logged := logged self @ [(INFO, Saving_mapping p)],
                         files := (files self)(p \<mapsto> w)\<rparr>) W ls))"

text \<open>\<open>Trainer.save_best\<close>.\<close>

definition save_best :: "'t trainer \<Rightarrow> real dict \<Rightarrow> string \<Rightarrow> error + 't trainer" where
  "save_best self to_log metric =
    bind (getitem to_log metric) (\<lambda>m.
      if m > best_valid_metric self then
        let self1 = self\<lparr>best_valid_metric := m,
                         logged := logged self @ [(INFO, Best_value metric m)]\<rparr>;
            langs = src_lang (params self1) # tgt_lang (params self1)
        in bind (select_keys (mapping self1) [] langs) (\<lambda>W. save_all self1 W langs)
      else Inr self)"

text \<open>
  A run of the validation-and-scheduling step is some sequence of calls of the two
  methods on one trainer; the sequence stops at the first exception.
\<close>

datatype call = Update_lr "real dict" string | Save_best "real dict" string



text \<open>The number of shrinks so far: the "Shrinking the learning rate" records in the log.\<close>

fun is_shrink_record :: "level \<times> message \<Rightarrow> bool" where
  "is_shrink_record (lv, Shrinking_learning_rate a b) = True"
| "is_shrink_record (lv, other) = False"

definition shrinks :: "'t trainer \<Rightarrow> nat" where
  "shrinks self = length (filter is_shrink_record (logged self))"

text \<open>An \<open>update_lr\<close> call that finds the metric below the best one so far.\<close>

definition below_best :: "'t trainer \<Rightarrow> real dict \<Rightarrow> string \<Rightarrow> bool" where
  "below_best self to_log metric =
    (case map_of to_log metric of None \<Rightarrow> False | Some m \<Rightarrow> m < best_valid_metric self)"

section \<open>Candidate pairs (dico\_builder.py)\<close>

type_synonym scores = "(real \<times> real) list"
type_synonym pairs = "(int \<times> int) list"

text \<open>The confidence margin of every row: \<open>all_scores[:, 0] - all_scores[:, 1]\<close>.\<close>

definition margins :: "scores \<Rightarrow> real list" where
  "margins all_scores = map (\<lambda>(a, b). a - b) all_scores"

text \<open>
  Modelled from the spec: the index vector returned by \<open>diff.sort(0, descending=True)[1]\<close>,
  a routine of torch that is not in the repository.  The spec words it as a sort of all
  pairs descending by margin with ties broken by original order (a stable sort).
\<close>

definition argsort_descending :: "real list \<Rightarrow> nat list" where
  "argsort_descending diff = sort_key (\<lambda>i. - (diff ! i)) [0..<length diff]"

text \<open>Sort pairs by score confidence: both tables are indexed with the same vector.\<close>

definition sort_by_confidence :: "scores \<Rightarrow> pairs \<Rightarrow> scores \<times> pairs" where
  "sort_by_confidence all_scores all_pairs =
    (let diff = margins all_scores;
         reordered = argsort_descending diff
     in (map (\<lambda>i. all_scores ! i) reordered, map (\<lambda>i. all_pairs ! i) reordered))"

text \<open>Max dico words rank: keep the rows whose larger index is at most the rank.\<close>

definition max_rank_filter :: "params \<Rightarrow> scores \<times> pairs \<Rightarrow> scores \<times> pairs" where
  "max_rank_filter p sp =
    (if dico_max_rank p > 0 then
       let kept = filter (\<lambda>(sc, (a, b)). max a b \<le> dico_max_rank p) (zip (fst sp) (snd sp))
       in (map fst kept, map snd kept)
     else sp)"

text \<open>Max dico size: the slice \<open>[:dico_max_size]\<close>.\<close>

definition max_size_cut :: "params \<Rightarrow> scores \<times> pairs \<Rightarrow> scores \<times> pairs" where
  "max_size_cut p sp =
    (if dico_max_size p > 0
     then (take (nat (dico_max_size p)) (fst sp), take (nat (dico_max_size p)) (snd sp))
     else sp)"

text \<open>Min dico size: \<open>diff[:dico_min_size] = 1e9\<close> on the recomputed margins.\<close>

definition min_size_margins :: "params \<Rightarrow> scores \<Rightarrow> real list" where
  "min_size_margins p all_scores =
    (let diff = margins all_scores
     in if dico_min_size p > 0
        then replicate (min (nat (dico_min_size p)) (length diff)) 1000000000 @
             drop (nat (dico_min_size p)) diff
        else diff)"

text \<open>Confidence threshold: the rows whose margin is above it, when it is positive.\<close>

definition threshold_filter :: "params \<Rightarrow> real list \<Rightarrow> pairs \<Rightarrow> log \<Rightarrow> pairs \<times> log" where
  "threshold_filter p diff all_pairs lg =
    (if dico_threshold p > 0 then
       let mask = map (\<lambda>d. d > dico_threshold p) diff
       in (map snd (filter fst (zip mask all_pairs)),
           lg @ [(INFO, Selected_pairs (length (filter id mask)) (length diff))])
     else (all_pairs, lg))"

text \<open>
  The second half of \<open>get_candidates\<close>, from the construction of \<open>all_pairs\<close> on: the
  selector of candidate pairs from the two score tables.
\<close>

definition select_candidates ::
  "params \<Rightarrow> nat \<Rightarrow> scores \<Rightarrow> pairs \<Rightarrow> log \<Rightarrow> error + (pairs \<times> log)" where
  "select_candidates p n_src all_scores all_targets lg =
    (let all_pairs = zip (map int [0..<length all_targets]) (map fst all_targets)
     in if \<not> (length all_scores = n_src \<and> length all_pairs = n_src) then Inl AssertionError
        else
          let sp = max_size_cut p (max_rank_filter p (sort_by_confidence all_scores all_pairs));
              diff = min_size_margins p (fst sp)
          in Inr (threshold_filter p diff (snd sp) lg))"

text \<open>\<open>knn.isdigit()\<close> for an ASCII string.\<close>

definition isdigit :: "string \<Rightarrow> bool" where
  "isdigit s = (s \<noteq> [] \<and> (\<forall>c\<in>set s. c \<in> set ''0123456789''))"

text \<open>
  \<open>get_candidates\<close>.  With a method that matches no branch, \<open>all_targets\<close> is still the
  empty Python list and \<open>all_targets.size(0)\<close> raises \<open>AttributeError\<close>.
\<close>

definition get_candidates ::
  "'t ops \<Rightarrow> 't \<Rightarrow> 't \<Rightarrow> params \<Rightarrow> log \<Rightarrow> error + (pairs \<times> log)" where
  "get_candidates ops emb1 emb2 p lg =
    (let n_src = (if dico_max_rank p > 0 \<and> \<not> starts_with (dico_method p) ''invsm_beta_''
                  then nat (dico_max_rank p) else size0 ops emb1)
     in bind
          (if dico_method p = ''nn'' then top2 ops Nearest_neighbours emb1 emb2 n_src
           else if starts_with (dico_method p) ''invsm_beta_''
             then top2 ops (Inverted_softmax (drop 11 (dico_method p))) emb1 emb2 n_src
           else if starts_with (dico_method p) ''csls_knn_''
             then (if isdigit (drop 9 (dico_method p))
                   then top2 ops (Csls (drop 9 (dico_method p))) emb1 emb2 n_src
                   else Inl AssertionError)
           else Inl AttributeError)
          (\<lambda>(all_scores, all_targets). select_candidates p n_src all_scores all_targets lg))"

section \<open>Pairwise dictionaries (dico\_builder.py)\<close>

text \<open>
  The dictionary returned: the candidate table itself for the one-directional policies,
  and for the set policies the list made from a Python set of pairs, whose order is the
  set's own and is not modelled.
\<close>

datatype dictionary = Rows pairs | Set_rows "(int \<times> int) set"

fun dictionary_len :: "dictionary \<Rightarrow> nat" where
  "dictionary_len (Rows xs) = length xs"
| "dictionary_len (Set_rows S) = card S"

text \<open>\<open>torch.cat([c[:, 1:], c[:, :1]], 1)\<close> on a table of two columns.\<close>

definition swap_columns :: "pairs \<Rightarrow> pairs" where
  "swap_columns c = map (\<lambda>(a, b). (b, a)) c"

text \<open>The last two statements: the log record with the length, and the result.\<close>

definition finish_dictionary :: "dictionary option \<Rightarrow> log \<Rightarrow> error + (dictionary option \<times> log)" where
  "finish_dictionary result lg =
    (case result of
       None \<Rightarrow> Inl TypeError
     | Some d \<Rightarrow> Inr (Some d, lg @ [(INFO, New_train_dictionary (dictionary_len d))]))"

text \<open>
  \<open>build_pairwise_dictionary\<close>.  \<open>None\<close> for an absent candidate table or an absent
  result.  \<open>return_tensor\<close> and \<open>params.cuda\<close> choose the container and the device of the
  result only and are left out.
\<close>

definition build_pairwise_dictionary ::
  "'t ops \<Rightarrow> 't \<Rightarrow> 't \<Rightarrow> params \<Rightarrow> pairs option \<Rightarrow> pairs option \<Rightarrow> log \<Rightarrow>
     error + (dictionary option \<times> log)" where
  "build_pairwise_dictionary ops src_emb' tgt_emb' p s2t_candidates t2s_candidates lg =
    (let lg0 = lg @ [(INFO, Building_train_dictionary)];
         s2t = str_contains (dico_build p) ''S2T'';
         t2s = str_contains (dico_build p) ''T2S''
     in if \<not> (s2t \<or> t2s) then Inl AssertionError
        else
          bind (if s2t \<and> s2t_candidates = None
                then bind (get_candidates ops src_emb' tgt_emb' p lg0) (\<lambda>(c, l). Inr (Some c, l))
                else Inr (s2t_candidates, lg0)) (\<lambda>(s2t_candidates, lg1).
          bind (if t2s
                then bind (case t2s_candidates of
                             None \<Rightarrow> get_candidates ops tgt_emb' src_emb' p lg1
                           | Some c \<Rightarrow> Inr (c, lg1)) (\<lambda>(c, l). Inr (Some (swap_columns c), l))
                else Inr (t2s_candidates, lg1)) (\<lambda>(t2s_candidates, lg2).
            if dico_build p = ''S2T'' then finish_dictionary (map_option Rows s2t_candidates) lg2
            else if dico_build p = ''T2S'' then finish_dictionary (map_option Rows t2s_candidates) lg2
            else
              (case s2t_candidates of
                 None \<Rightarrow> Inl AttributeError
               | Some a \<Rightarrow>
                  (case t2s_candidates of
                     None \<Rightarrow> Inl AttributeError
                   | Some b \<Rightarrow>
                       if dico_build p = ''S2T|T2S''
                       then finish_dictionary (Some (Set_rows (set a \<union> set b))) lg2
                       else if dico_build p \<noteq> ''S2T&T2S'' then Inl AssertionError
                       else
                         let final_pairs = set a \<inter> set b
                         in if final_pairs = {}
                            then Inr (None, lg2 @ [(WARNING, Empty_intersection)])
                            else finish_dictionary (Some (Set_rows final_pairs)) lg2)))))"

section \<open>Procrustes (trainer.py)\<close>

text \<open>
  \<open>self.dico[:, i]\<close>: column \<open>i\<close> of the index table.  A table without rows has one
  dimension only (it comes from \<open>np.array([])\<close>), so every column subscript fails.
\<close>

definition column :: "int list list \<Rightarrow> nat \<Rightarrow> error + int list" where
  "column d i =
    (if d = [] \<or> (\<exists>r\<in>set d. length r \<le> i) then Inl IndexError
     else Inr (map (\<lambda>r. r ! i) d))"

text \<open>
  The statements that both solvers share: the full SVD of the cross-covariance, then
  the product \<open>U.dot(V_t)\<close> copied over the mapping tensor \<open>W\<close>.  The generalized
  solver subscripts \<open>T[lang]\<close> between the two, so \<open>W\<close> is passed as a computation.
\<close>

definition svd_rotation :: "'t ops \<Rightarrow> 't \<Rightarrow> error + 't \<Rightarrow> error + 't" where
  "svd_rotation ops M W =
    bind (svd ops M) (\<lambda>(U, S, V_t).
    bind W (\<lambda>W.
    bind (dot ops U V_t) (\<lambda>R. copy_from ops W R)))"

text \<open>\<open>Trainer.simple_procrustes\<close>.\<close>

definition simple_procrustes :: "'t ops \<Rightarrow> 't trainer \<Rightarrow> error + 't trainer" where
  "simple_procrustes ops self =
    bind (column (dico self) 0) (\<lambda>i0.
    bind (index_rows ops (src_emb self) i0) (\<lambda>A.
    bind (final (tgt_lang (params self))) (\<lambda>l.
    bind (getitem (tgt_emb self) l) (\<lambda>E.
    bind (column (dico self) 1) (\<lambda>i1.
    bind (index_rows ops E i1) (\<lambda>B.
    bind (getitem (mapping self) (src_lang (params self))) (\<lambda>W.
    bind (mm ops (transpose ops B) A) (\<lambda>M.
    bind (svd_rotation ops M (Inr W)) (\<lambda>W'.
      Inr (self\<lparr>mapping := AList.update (src_lang (params self)) W' (mapping self)\<rparr>))))))))))"

text \<open>\<open>Trainer.get_group_average\<close>; the two branches differ in the device only.\<close>

fun products :: "'t ops \<Rightarrow> 't dict \<Rightarrow> 't dict \<Rightarrow> string list \<Rightarrow> error + 't list" where
  "products ops X T [] = Inr []"
| "products ops X T (lang # langs) =
    bind (getitem X lang) (\<lambda>x.
    bind (getitem T lang) (\<lambda>t.
    bind (mm ops x t) (\<lambda>xt.
    bind (products ops X T langs) (\<lambda>rest. Inr (xt # rest)))))"

definition get_group_average :: "'t ops \<Rightarrow> 't dict \<Rightarrow> 't dict \<Rightarrow> error + 't" where
  "get_group_average ops X T = bind (products ops X T (keys X)) (stack_mean ops)"

text \<open>
  The dict comprehension for \<open>X\<close>: the rows of each target language's embeddings
  selected by column \<open>i\<close> of the index table, \<open>i\<close> counting the languages from 1.
\<close>

fun matched_points ::
  "'t ops \<Rightarrow> 't trainer \<Rightarrow> 't dict \<Rightarrow> nat \<Rightarrow> string list \<Rightarrow> error + 't dict" where
  "matched_points ops self acc i [] = Inr acc"
| "matched_points ops self acc i (lang # langs) =
    bind (getitem (tgt_emb self) lang) (\<lambda>E.
    bind (column (dico self) i) (\<lambda>idx.
    bind (index_rows ops E idx) (\<lambda>x.
      matched_points ops self (AList.update lang x acc) (Suc i) langs)))"

text \<open>
  Superimpose all instances to the current reference shape: the inner loop over
  \<open>X.keys()\<close>, which overwrites \<open>T[lang]\<close> for every key in turn.
\<close>

fun superimpose ::
  "'t ops \<Rightarrow> 't \<Rightarrow> 't dict \<Rightarrow> string list \<Rightarrow> 't dict \<Rightarrow> error + 't dict" where
  "superimpose ops G X [] T = Inr T"
| "superimpose ops G X (lang # langs) T =
    bind (getitem X lang) (\<lambda>x.
    bind (mm ops (transpose ops G) x) (\<lambda>M.
    bind (svd_rotation ops M (getitem T lang)) (\<lambda>t'.
      superimpose ops G X langs (AList.update lang t' T))))"

text \<open>
  The outer loop \<open>for _ in range(100)\<close>, by the number of iterations left;
  \<open>initial_run\<close> is the local variable, cleared at the end of every iteration.
\<close>

fun gp_loop ::
  "'t ops \<Rightarrow> params \<Rightarrow> 't dict \<Rightarrow> nat \<Rightarrow> bool \<Rightarrow> 't dict \<Rightarrow> error + 't dict" where
  "gp_loop ops p X 0 initial_run T = Inr T"
| "gp_loop ops p X (Suc n) initial_run T =
    bind (if initial_run then bind (first (tgt_lang p)) (getitem X)
          else get_group_average ops X T) (\<lambda>G.
    bind (superimpose ops G X (keys X) T) (\<lambda>T'.
      gp_loop ops p X n False T'))"

text \<open>The statements before the loop: \<open>lang_list\<close>, \<open>X\<close> and \<open>T\<close>.\<close>

definition gp_tables :: "'t ops \<Rightarrow> 't trainer \<Rightarrow> bool \<Rightarrow> error + ('t dict \<times> 't dict)" where
  "gp_tables ops self support =
    bind (if \<not> support then bind (final (tgt_lang (params self))) (\<lambda>l. Inr [l])
          else Inr (tgt_lang (params self))) (\<lambda>lang_list.
    bind (matched_points ops self [] 1 lang_list) (\<lambda>X0.
    bind (column (dico self) 0) (\<lambda>i0.
    bind (index_rows ops (src_emb self) i0) (\<lambda>x.
      let X = AList.update (src_lang (params self)) x X0
      in bind (select_keys (mapping self) [] (src_lang (params self) # lang_list)) (\<lambda>T.
           Inr (X, T))))))"

text \<open>
  \<open>Trainer.generalized_procrustes\<close>.  \<open>T[lang]\<close> is the tensor \<open>self.mapping[lang]\<close>
  itself, so what the loop leaves in \<open>T\<close> is what the mapping holds afterwards.
\<close>

fun write_back :: "'t dict \<Rightarrow> 't dict \<Rightarrow> 't dict" where
  "write_back [] m = m"
| "write_back ((lang, t) # T) m = write_back T (AList.update lang t m)"

definition generalized_procrustes ::
  "'t ops \<Rightarrow> 't trainer \<Rightarrow> bool \<Rightarrow> bool \<Rightarrow> error + 't trainer" where
  "generalized_procrustes ops self support initial_run =
    bind (gp_tables ops self support) (\<lambda>(X, T).
    bind (gp_loop ops (params self) X 100 initial_run T) (\<lambda>T'.
      Inr (self\<lparr>mapping := write_back T' (mapping self)\<rparr>)))"

text \<open>
  For the statement of what the loop computes: \<open>n\<close> successive runs of a step that may
  raise, and the two kinds of iteration.
\<close>

fun repeat :: "nat \<Rightarrow> ('a \<Rightarrow> error + 'a) \<Rightarrow> 'a \<Rightarrow> error + 'a" where
  "repeat 0 f x = Inr x"
| "repeat (Suc n) f x = bind (f x) (repeat n f)"

definition iteration_from :: "'t ops \<Rightarrow> 't dict \<Rightarrow> 't \<Rightarrow> 't dict \<Rightarrow> error + 't dict" where
  "iteration_from ops X G T = superimpose ops G X (keys X) T"

definition mean_iteration :: "'t ops \<Rightarrow> 't dict \<Rightarrow> 't dict \<Rightarrow> error + 't dict" where
  "mean_iteration ops X T = bind (get_group_average ops X T) (\<lambda>G. iteration_from ops X G T)"

section \<open>Example data\<close>

text \<open>
  A small configuration and trainer for the concrete runs below: one source language,
  one target language, embeddings of dimension 1 written as lists of rows.
\<close>

type_synonym matrix = "real list list"

definition params0 :: params where
  "params0 = \<lparr>src_lang = ''en'', tgt_lang = [''es''], map_optimizer = ''sgd,lr=0.1'',
     min_lr = 0, lr_decay = 1, lr_shrink = 1/2, exp_path = ''dumped'', dis_lambda = 1,
     dis_clip_weights = 0, map_beta = 0, batch_size = 32, dico_method = ''nn'',
     dico_build = ''S2T'', dico_max_rank = 0, dico_max_size = 0, dico_min_size = 0,
     dico_threshold = 0\<rparr>"

definition trainer0 :: "matrix trainer" where
  "trainer0 = \<lparr>params = params0, src_emb = [[- 1], [- 2]], tgt_emb = [(''es'', [[1], [2]])],
     mapping = [(''en'', [[1]]), (''es'', [[1]])], dico = [[0, 0], [1, 1]], lr = 1/10,
     best_valid_metric = - 1000000000000, decrease_lr = False, files = Map.empty,
     events = [], logged = []\<rparr>"

text \<open>One epoch with validation metric \<open>m\<close>: the two calls, in either order.\<close>

definition epoch :: "real \<Rightarrow> call list" where
  "epoch m = [Save_best [(''acc'', m)] ''acc'', Update_lr [(''acc'', m)] ''acc'']"

definition epoch_rev :: "real \<Rightarrow> call list" where
  "epoch_rev m = [Update_lr [(''acc'', m)] ''acc'', Save_best [(''acc'', m)] ''acc'']"

text \<open>A trainer that has seen the metric drop once, with a best metric of 1.\<close>

definition trainer_dropped :: "matrix trainer" where
  "trainer_dropped = trainer0\<lparr>best_valid_metric := 1, decrease_lr := True\<rparr>"

text \<open>Selector settings: keep at least two, at most three, margin above 5.\<close>

definition params_select :: params where
  "params_select = params0\<lparr>dico_min_size := 2, dico_max_size := 3, dico_threshold := 5\<rparr>"

definition scores4 :: scores where
  "scores4 = [(10, 1), (3, 2), (8, 7), (6, 0)]"

definition targets4 :: pairs where
  "targets4 = [(4, 0), (5, 0), (6, 0), (7, 0)]"

text \<open>
  An exact instance of the library operations on lists of rows, enough for the runs
  below: products and means as in linear algebra, a failure where the shapes do not
  fit, the nearest-neighbour scoring only, and the singular value decomposition of a
  matrix with one entry only.
\<close>

definition dotp :: "real list \<Rightarrow> real list \<Rightarrow> real" where
  "dotp u v = sum_list (map2 (*) u v)"

definition same_shape :: "matrix \<Rightarrow> matrix \<Rightarrow> bool" where
  "same_shape a b = (map length a = map length b)"

fun mat_transpose :: "matrix \<Rightarrow> matrix" where
  "mat_transpose [] = []"
| "mat_transpose (r # rs) =
    (if rs = [] then map (\<lambda>x. [x]) r else map2 (#) r (mat_transpose rs))"

definition mat_mm :: "matrix \<Rightarrow> matrix \<Rightarrow> error + matrix" where
  "mat_mm a b =
    (if b \<noteq> [] \<and> list_all (\<lambda>r. length r = length (hd b)) b \<and>
        list_all (\<lambda>r. length r = length b) a
     then Inr (map (\<lambda>r. map (dotp r) (mat_transpose b)) a)
     else Inl LibraryError)"

definition mat_stack_mean :: "matrix list \<Rightarrow> error + matrix" where
  "mat_stack_mean ts =
    (case ts of
       [] \<Rightarrow> Inl LibraryError
     | t # rest \<Rightarrow>
         if list_all (same_shape t) rest
         then Inr (map (map (\<lambda>x. x / real (length ts))) (foldl (map2 (map2 (+))) t rest))
         else Inl LibraryError)"

definition mat_svd :: "matrix \<Rightarrow> error + (matrix \<times> matrix \<times> matrix)" where
  "mat_svd M =
    (case M of
       [[m]] \<Rightarrow> Inr ([[if m < 0 then - 1 else 1]], [[abs m]], [[1]])
     | _ \<Rightarrow> Inl LibraryError)"

definition mat_index_rows :: "matrix \<Rightarrow> int list \<Rightarrow> error + matrix" where
  "mat_index_rows t idx =
    (if list_all (\<lambda>i. 0 \<le> i \<and> nat i < length t) idx then Inr (map (\<lambda>i. t ! nat i) idx)
     else Inl LibraryError)"

definition nn_top2 :: "matrix \<Rightarrow> matrix \<Rightarrow> nat \<Rightarrow> error + (scores \<times> pairs)" where
  "nn_top2 q r n =
    (if length r < 2 then Inl LibraryError
     else
       let rows = map (\<lambda>u.
             let sc = map (dotp u) r;
                 order = sort_key (\<lambda>j. - (sc ! j)) [0..<length r]
             in ((sc ! (order ! 0), sc ! (order ! 1)), (int (order ! 0), int (order ! 1))))
           (take n q)
       in Inr (map fst rows, map snd rows))"

definition ops0 :: "matrix ops" where
  "ops0 = \<lparr>size0 = length,
     top2 = (\<lambda>m q r n. case m of Nearest_neighbours \<Rightarrow> nn_top2 q r n | _ \<Rightarrow> Inl LibraryError),
     index_rows = mat_index_rows,
     transpose = mat_transpose,
     mm = mat_mm,
     stack_mean = mat_stack_mean,
     svd = mat_svd,
     dot = mat_mm,
     copy_from = (\<lambda>t s. if same_shape t s then Inr s else Inl LibraryError),
     smul = (\<lambda>c. map (map ((*) c))),
     sub = (\<lambda>a b. if same_shape a b then Inr (map2 (map2 (-)) a b) else Inl LibraryError),
     map_optimizer_step = id\<rparr>"

text \<open>Two embedding tables of dimension 2 in which word 0 of each is word 1 of the other.\<close>

definition emb_src :: matrix where
  "emb_src = [[1, 0], [0, 1]]"

definition emb_tgt :: matrix where
  "emb_tgt = [[0, 1], [1, 0]]"

text \<open>The two build policies used in the runs below.\<close>

definition params_both :: params where
  "params_both = params0\<lparr>dico_build := ''S2T&T2S''\<rparr>"

definition params_t2s :: params where
  "params_t2s = params0\<lparr>dico_build := ''T2S''\<rparr>"

text \<open>
  A trainer with two target languages, and the same trainer with a target list that
  names the first language again at the end, and with one that names the source
  language first.
\<close>

definition trainer_multi :: "matrix trainer" where
  "trainer_multi = trainer0\<lparr>params := params0\<lparr>tgt_lang := [''es'', ''fr'']\<rparr>,
     tgt_emb := [(''es'', [[1], [2]]), (''fr'', [[2], [1]])],
     mapping := [(''en'', [[1]]), (''es'', [[1]]), (''fr'', [[1]])],
     dico := [[0, 0, 0], [1, 1, 1]]\<rparr>"

definition trainer_repeat :: "matrix trainer" where
  "trainer_repeat = trainer_multi\<lparr>params := params0\<lparr>tgt_lang := [''es'', ''fr'', ''es'']\<rparr>\<rparr>"

definition trainer_self :: "matrix trainer" where
  "trainer_self = trainer_multi\<lparr>params := params0\<lparr>tgt_lang := [''en'', ''es'']\<rparr>\<rparr>"

text \<open>The tables \<open>X\<close> and \<open>T\<close> of these trainers, and \<open>T\<close> after the loop.\<close>

definition X_multi :: "matrix dict" where
  "X_multi = [(''es'', [[1], [2]]), (''fr'', [[2], [1]]), (''en'', [[- 1], [- 2]])]"

definition T_start :: "matrix dict" where
  "T_start = [(''en'', [[1]]), (''es'', [[1]]), (''fr'', [[1]])]"

definition T_aligned :: "matrix dict" where
  "T_aligned = [(''en'', [[- 1]]), (''es'', [[1]]), (''fr'', [[1]])]"

definition X_pair :: "matrix dict" where
  "X_pair = [(''es'', [[1], [2]]), (''en'', [[- 1], [- 2]])]"

definition T_pair :: "matrix dict" where
  "T_pair = [(''en'', [[1]]), (''es'', [[1]])]"

definition T_pair_aligned :: "matrix dict" where
  "T_pair_aligned = [(''en'', [[- 1]]), (''es'', [[1]])]"

definition T_pair_flipped :: "matrix dict" where
  "T_pair_flipped = [(''en'', [[1]]), (''es'', [[- 1]])]"

text \<open>The first trainer with the same embeddings in both languages.\<close>

definition trainer_same :: "matrix trainer" where
  "trainer_same = trainer0\<lparr>src_emb := [[1], [2]]\<rparr>"

section \<open>Facts about the learning-rate schedule\<close>

lemmas schedule_eval = trainer0_def params0_def epoch_def epoch_rev_def trainer_dropped_def
  update_lr_def save_best_def bind_def getitem_def Let_def shrinks_def best_mapping_path_def
  below_best_def

lemma update_lr_cases:
  assumes "update_lr self to_log metric = Inr self'"
  shows "lr self' = lr self \<or> lr self' < lr self \<or>
     (lr_shrink (params self) < 1 \<and>
      lr self' =
        (if max (min_lr (params self)) (lr self * lr_decay (params self)) < lr self
         then max (min_lr (params self)) (lr self * lr_decay (params self)) else lr self)
        * lr_shrink (params self))"
  using assms
  by (auto simp: update_lr_def Let_def bind_def getitem_def split: if_splits option.splits)

lemma update_lr_flag_mono:
  "update_lr self to_log metric = Inr self' \<Longrightarrow> decrease_lr self \<Longrightarrow> decrease_lr self'"
  by (auto simp: update_lr_def Let_def bind_def getitem_def split: if_splits option.splits)









text \<open>
  C10, as the claim states it ("for all parameter settings"), fails: with a negative
  rate of \<open>-1\<close> and \<open>lr_shrink = 1/2\<close>, a shrinking call leaves the rate at \<open>-1/2\<close>,
  which is larger.
\<close>

theorem update_lr_raises_negative_rate:
  "map_sum id lr (update_lr (trainer_dropped\<lparr>lr := - 1\<rparr>) [(''acc'', 0)] ''acc'') = Inr (- 1 / 2)
   \<and> lr (trainer_dropped\<lparr>lr := - 1\<rparr>) = - 1
   \<and> \<not> ((- 1 / 2 :: real) \<le> - 1)"
  by (simp add: schedule_eval)

text \<open>
  C10, amended: a call of \<open>update_lr\<close> that returns leaves the rate less than or equal
  to its value before the call whenever that value is not negative and \<open>min_lr\<close> or
  \<open>lr_shrink\<close> is not negative.
\<close>

theorem update_lr_non_increasing:
  assumes "update_lr self to_log metric = Inr self'"
    and "0 \<le> lr self"
    and "0 \<le> min_lr (params self) \<or> 0 \<le> lr_shrink (params self)"
  shows "lr self' \<le> lr self"
proof -
  define l1 where "l1 =
    (if max (min_lr (params self)) (lr self * lr_decay (params self)) < lr self
     then max (min_lr (params self)) (lr self * lr_decay (params self)) else lr self)"
  have l1: "l1 \<le> lr self" by (simp add: l1_def)
  from update_lr_cases[OF assms(1)]
  consider "lr self' = lr self" | "lr self' < lr self"
    | "lr_shrink (params self) < 1" "lr self' = l1 * lr_shrink (params self)"
    unfolding l1_def by blast
  then show ?thesis
  proof cases
    case 3
    show ?thesis
    proof (cases "0 \<le> l1")
      case True
      then have "l1 * lr_shrink (params self) \<le> l1 * 1"
        using 3(1) by (intro mult_left_mono) auto
      then show ?thesis using 3 l1 by simp
    next
      case False
      then have neg: "l1 < 0" by simp
      have "0 \<le> lr_shrink (params self)"
      proof (rule ccontr)
        assume "\<not> 0 \<le> lr_shrink (params self)"
        then have "0 \<le> min_lr (params self)" using assms(3) by simp
        then have "0 \<le> l1" using assms(2) by (auto simp: l1_def max_def)
        then show False using neg by simp
      qed
      then have "l1 * lr_shrink (params self) \<le> 0" using neg by (simp add: mult_le_0_iff)
      then show ?thesis using 3 assms(2) by simp
    qed
  qed simp_all
qed

theorem update_lr_non_increasing_witness:
  "update_lr trainer_dropped [(''acc'', 0)] ''acc''
     = Inr (projr (update_lr trainer_dropped [(''acc'', 0)] ''acc''))
   \<and> 0 \<le> lr trainer_dropped
   \<and> 0 \<le> min_lr (params trainer_dropped)
   \<and> lr (projr (update_lr trainer_dropped [(''acc'', 0)] ''acc'')) \<le> lr trainer_dropped
   \<and> lr (projr (update_lr trainer_dropped [(''acc'', 0)] ''acc'')) = 1/20
   \<and> lr trainer_dropped = 1/10"
proof -
  let ?r = "update_lr trainer_dropped [(''acc'', 0)] ''acc''"
  have h1: "?r = Inr (projr ?r)" by (simp add: schedule_eval)
  have h2: "0 \<le> lr trainer_dropped" by (simp add: schedule_eval)
  have h3: "0 \<le> min_lr (params trainer_dropped)" by (simp add: schedule_eval)
  have v: "lr (projr ?r) = 1/20" "lr trainer_dropped = 1/10" by (simp_all add: schedule_eval)
  from update_lr_non_increasing[OF h1 h2 disjI1[OF h3]] h1 h2 h3 v
  show ?thesis by blast
qed

section \<open>Facts about the selection of candidate pairs\<close>

lemmas select_eval = select_candidates_def sort_by_confidence_def argsort_descending_def
  margins_def max_rank_filter_def max_size_cut_def min_size_margins_def threshold_filter_def
  Let_def params0_def params_select_def scores4_def targets4_def

















section \<open>Facts about the pairwise dictionary\<close>

lemmas ops_eval = ops0_def nn_top2_def mat_index_rows_def mat_svd_def mat_stack_mean_def
  mat_mm_def same_shape_def dotp_def emb_src_def emb_tgt_def

lemmas build_eval = build_pairwise_dictionary_def get_candidates_def finish_dictionary_def
  swap_columns_def bind_def params_both_def params_t2s_def

lemma contains_policy [simp]:
  "str_contains ''S2T&T2S'' ''S2T''" "str_contains ''S2T&T2S'' ''T2S''"
  "\<not> str_contains ''T2S'' ''S2T''" "str_contains ''T2S'' ''T2S''"
  by simp_all

text \<open>
  C4: under the policy \<open>S2T&T2S\<close>, when the source-to-target candidates (given, or
  computed by \<open>get_candidates\<close>) and the column-swapped target-to-source candidates
  have no pair in common, \<open>build_pairwise_dictionary\<close> returns \<open>None\<close> with the warning
  "Empty intersection" as the last log record, and raises nothing.
\<close>

theorem empty_intersection_is_absent:
  assumes pol: "dico_build p = ''S2T&T2S''"
    and s2t: "(case s2t_candidates of
                 None \<Rightarrow> get_candidates ops src tgt p (lg @ [(INFO, Building_train_dictionary)])
               | Some c \<Rightarrow> Inr (c, lg @ [(INFO, Building_train_dictionary)])) = Inr (a, lg1)"
    and t2s: "(case t2s_candidates of
                 None \<Rightarrow> get_candidates ops tgt src p lg1
               | Some c \<Rightarrow> Inr (c, lg1)) = Inr (b, lg2)"
    and empty: "set a \<inter> set (swap_columns b) = {}"
  shows "build_pairwise_dictionary ops src tgt p s2t_candidates t2s_candidates lg
       = Inr (None, lg2 @ [(WARNING, Empty_intersection)])"
proof -
  have 1: "(if True \<and> s2t_candidates = None
         then bind (get_candidates ops src tgt p (lg @ [(INFO, Building_train_dictionary)]))
                (\<lambda>(c, l). Inr (Some c, l))
         else Inr (s2t_candidates, lg @ [(INFO, Building_train_dictionary)])) = Inr (Some a, lg1)"
    using s2t by (cases s2t_candidates) (auto simp: bind_def)
  have 2: "bind (case t2s_candidates of
                   None \<Rightarrow> get_candidates ops tgt src p lg1
                 | Some c \<Rightarrow> Inr (c, lg1)) (\<lambda>(c, l). Inr (Some (swap_columns c), l))
           = Inr (Some (swap_columns b), lg2)"
    using t2s by (simp add: bind_def)
  show ?thesis
    unfolding build_pairwise_dictionary_def Let_def pol
    using 1 2 empty by (simp add: bind_def)
qed

theorem empty_intersection_is_absent_witness:
  "dico_build params_both = ''S2T&T2S''
   \<and> get_candidates ops0 emb_src emb_tgt params_both [(INFO, Building_train_dictionary)]
       = Inr ([(0, 1), (1, 0)], [(INFO, Building_train_dictionary)])
   \<and> set [(0::int, 1::int), (1, 0)] \<inter> set (swap_columns [(0, 0), (1, 1)]) = {}
   \<and> build_pairwise_dictionary ops0 emb_src emb_tgt params_both None (Some [(0, 0), (1, 1)]) []
       = Inr (None, [(INFO, Building_train_dictionary), (WARNING, Empty_intersection)])"
proof -
  have pol: "dico_build params_both = ''S2T&T2S''"
    by (simp add: params_both_def params0_def)
  have gc: "get_candidates ops0 emb_src emb_tgt params_both [(INFO, Building_train_dictionary)]
       = Inr ([(0, 1), (1, 0)], [(INFO, Building_train_dictionary)])"
    by (simp add: build_eval select_eval ops_eval)
  have s2t: "(case None of
                 None \<Rightarrow> get_candidates ops0 emb_src emb_tgt params_both
                           ([] @ [(INFO, Building_train_dictionary)])
               | Some c \<Rightarrow> Inr (c, [] @ [(INFO, Building_train_dictionary)]))
             = Inr ([(0, 1), (1, 0)], [(INFO, Building_train_dictionary)])"
    using gc by simp
  have t2s: "(case Some [(0, 0), (1, 1)] of
                 None \<Rightarrow> get_candidates ops0 emb_tgt emb_src params_both
                           [(INFO, Building_train_dictionary)]
               | Some c \<Rightarrow> Inr (c, [(INFO, Building_train_dictionary)]))
             = Inr ([(0, 0), (1, 1)], [(INFO, Building_train_dictionary)])"
    by simp
  have empty: "set [(0::int, 1::int), (1, 0)] \<inter> set (swap_columns [(0, 0), (1, 1)]) = {}"
    by (simp add: swap_columns_def)
  from empty_intersection_is_absent[OF pol s2t t2s empty] pol gc empty
  show ?thesis by simp
qed



section \<open>Facts about the discriminator and mapping steps\<close>

lemma float_ne_self: "float_ne x x \<longleftrightarrow> x = NaN"
  by (auto simp: float_ne_def)

text \<open>
  C6: \<open>dis_step\<close> ends in \<open>SystemExit\<close> exactly when its loss is NaN, and then the call
  has put the discriminator in training mode, recorded the loss and logged the error,
  and nothing else: no \<open>zero_grad\<close>, \<open>backward\<close> or \<open>step\<close>.  A \<open>mapping_step\<close> that
  computes a loss (\<open>dis_lambda\<close> is not 0) whose scaled value is NaN likewise ends in
  \<open>SystemExit\<close> after the evaluation-mode call and the error record only, with the
  mapping unchanged.
\<close>

theorem nan_loss_exits_before_optimizer:
  "(snd (dis_step self loss) = Inl SystemExit \<longleftrightarrow> loss = NaN)
   \<and> fst (dis_step self NaN)
       = self\<lparr>events := events self @ [Discriminator_train, Stats_append NaN],
               logged := logged self @ [(ERROR, NaN_detected_discriminator)]\<rparr>
   \<and> filter is_optimizer_event (events (fst (dis_step self NaN)))
       = filter is_optimizer_event (events self)
   \<and> (dis_lambda (params self) \<noteq> 0 \<and> scale (dis_lambda (params self)) loss = NaN \<longrightarrow>
        mapping_step ops self loss
          = (self\<lparr>events := events self @ [Discriminator_eval],
                   logged := logged self @ [(ERROR, NaN_detected_fool_discriminator)]\<rparr>,
             Inl SystemExit)
        \<and> filter is_optimizer_event (events (fst (mapping_step ops self loss)))
           = filter is_optimizer_event (events self)
        \<and> mapping (fst (mapping_step ops self loss)) = mapping self)"
  by (auto simp: dis_step_def mapping_step_def Let_def float_ne_self)

theorem nan_loss_exits_before_optimizer_witness:
  "dis_lambda (params trainer0) \<noteq> 0 \<and> scale (dis_lambda (params trainer0)) NaN = NaN
   \<and> dis_step trainer0 NaN
       = (trainer0\<lparr>events := [Discriminator_train, Stats_append NaN],
                   logged := [(ERROR, NaN_detected_discriminator)]\<rparr>, Inl SystemExit)
   \<and> mapping_step ops0 trainer0 NaN
       = (trainer0\<lparr>events := [Discriminator_eval],
                   logged := [(ERROR, NaN_detected_fool_discriminator)]\<rparr>, Inl SystemExit)
   \<and> events (fst (dis_step trainer0 (Finite 1)))
       = [Discriminator_train, Stats_append (Finite 1), Zero_grad Dis_optimizer, Backward,
          Optimizer_step Dis_optimizer, Clip_parameters 0]
   \<and> snd (dis_step trainer0 (Finite 1)) = Inr ()"
proof -
  have h: "dis_lambda (params trainer0) \<noteq> 0" "scale (dis_lambda (params trainer0)) NaN = NaN"
    by (simp_all add: trainer0_def params0_def)
  have e: "events trainer0 = []" "logged trainer0 = []"
    by (simp_all add: trainer0_def)
  from nan_loss_exits_before_optimizer[of trainer0 NaN ops0] h
  have m: "mapping_step ops0 trainer0 NaN
       = (trainer0\<lparr>events := [Discriminator_eval],
                   logged := [(ERROR, NaN_detected_fool_discriminator)]\<rparr>, Inl SystemExit)"
    by (simp add: e)
  from nan_loss_exits_before_optimizer[of trainer0 NaN ops0]
  have d: "dis_step trainer0 NaN
       = (trainer0\<lparr>events := [Discriminator_train, Stats_append NaN],
                   logged := [(ERROR, NaN_detected_discriminator)]\<rparr>, Inl SystemExit)"
    by (simp add: e prod_eq_iff)
  have f: "events (fst (dis_step trainer0 (Finite 1)))
       = [Discriminator_train, Stats_append (Finite 1), Zero_grad Dis_optimizer, Backward,
          Optimizer_step Dis_optimizer, Clip_parameters 0]"
    "snd (dis_step trainer0 (Finite 1)) = Inr ()"
    by (simp_all add: dis_step_def Let_def float_ne_def trainer0_def params0_def)
  from h m d f show ?thesis by simp
qed

section \<open>Facts about the generalized Procrustes loop\<close>

lemma bind_assoc: "bind (bind a f) g = bind a (\<lambda>x. bind (f x) g)"
  by (simp add: bind_def split: sum.splits)

lemma bind_Inr_iff: "bind a f = Inr y \<longleftrightarrow> (\<exists>x. a = Inr x \<and> f x = Inr y)"
  by (cases a) (simp_all add: bind_def)


lemma getitem_Inl_iff: "getitem d k = Inl e \<longleftrightarrow> map_of d k = None \<and> e = KeyError k"
  by (auto simp: getitem_def split: option.splits)

lemma gp_loop_mean: "gp_loop ops p X n False = repeat n (mean_iteration ops X)"
proof (induction n)
  case 0
  show ?case by (rule ext) simp
next
  case (Suc n)
  show ?case by (rule ext) (simp add: Suc mean_iteration_def iteration_from_def bind_assoc)
qed

lemma gp_loop_initial:
  "gp_loop ops p X (Suc n) True T =
     bind (bind (first (tgt_lang p)) (getitem X)) (\<lambda>G.
       bind (iteration_from ops X G T) (repeat n (mean_iteration ops X)))"
  by (simp add: gp_loop_mean iteration_from_def)

lemma hundred: "(100::nat) = Suc 99" by simp

lemma gp_equation:
  "generalized_procrustes ops self support initial_run =
     bind (gp_tables ops self support) (\<lambda>(X, T).
       bind (if initial_run
             then bind (bind (first (tgt_lang (params self))) (getitem X)) (\<lambda>G.
                    bind (iteration_from ops X G T) (repeat 99 (mean_iteration ops X)))
             else repeat 100 (mean_iteration ops X) T)
         (\<lambda>T'. Inr (self\<lparr>mapping := write_back T' (mapping self)\<rparr>)))"
proof (cases initial_run)
  case True
  have "gp_loop ops (params self) X 100 True T =
     bind (bind (first (tgt_lang (params self))) (getitem X)) (\<lambda>G.
       bind (iteration_from ops X G T) (repeat 99 (mean_iteration ops X)))" for X T
    unfolding hundred by (rule gp_loop_initial)
  then show ?thesis using True by (simp add: generalized_procrustes_def)
next
  case False
  then show ?thesis by (simp add: generalized_procrustes_def gp_loop_mean)
qed





lemma matched_points_keys:
  "matched_points ops self acc i langs = Inr X \<Longrightarrow>
   set (map fst X) = set (map fst acc) \<union> set langs \<and>
   (distinct (map fst acc) \<longrightarrow> distinct (map fst X))"
proof (induction langs arbitrary: acc i)
  case Nil then show ?case by simp
next
  case (Cons a langs)
  from Cons.prems obtain x where
    "matched_points ops self (AList.update a x acc) (Suc i) langs = Inr X"
    by (auto simp: bind_Inr_iff)
  from Cons.IH[OF this] show ?case
    using dom_update[of a x acc] by (auto simp: distinct_update)
qed

lemma matched_points_other:
  "matched_points ops self acc i langs = Inr X \<Longrightarrow> l \<notin> set langs \<Longrightarrow> map_of X l = map_of acc l"
proof (induction langs arbitrary: acc i)
  case Nil then show ?case by simp
next
  case (Cons a langs)
  from Cons.prems(1) obtain x where
    "matched_points ops self (AList.update a x acc) (Suc i) langs = Inr X"
    by (auto simp: bind_Inr_iff)
  from Cons.IH[OF this] Cons.prems(2) show ?case by (simp add: update_conv')
qed

lemma matched_points_head:
  assumes "matched_points ops self acc i (l # langs) = Inr X" "l \<notin> set langs"
  shows "\<exists>E idx x. getitem (tgt_emb self) l = Inr E \<and> column (dico self) i = Inr idx \<and>
           index_rows ops E idx = Inr x \<and> map_of X l = Some x"
proof -
  from assms(1) obtain E idx x where
    h: "getitem (tgt_emb self) l = Inr E" "column (dico self) i = Inr idx"
       "index_rows ops E idx = Inr x"
       "matched_points ops self (AList.update l x acc) (Suc i) langs = Inr X"
    by (auto simp: bind_Inr_iff)
  from matched_points_other[OF h(4) assms(2)] have "map_of X l = Some x"
    by (simp add: update_conv')
  with h show ?thesis by blast
qed

lemma gp_tables_keys:
  assumes "gp_tables ops self support = Inr (X, T)"
  shows "distinct (keys X)"
    and "set (keys X) = insert (src_lang (params self))
           (if support then set (tgt_lang (params self)) else {last (tgt_lang (params self))})"
    and "\<not> support \<Longrightarrow> tgt_lang (params self) \<noteq> []"
proof -
  from assms obtain lang_list X0 x where
    h: "(if \<not> support then bind (final (tgt_lang (params self))) (\<lambda>l. Inr [l])
          else Inr (tgt_lang (params self))) = Inr lang_list"
       "matched_points ops self [] 1 lang_list = Inr X0"
       "X = AList.update (src_lang (params self)) x X0"
    by (auto simp: gp_tables_def bind_Inr_iff Let_def)
  from matched_points_keys[OF h(2)] have k: "set (map fst X0) = set lang_list" "distinct (map fst X0)"
    by simp_all
  show "distinct (keys X)" using k(2) by (simp add: keys_def h(3) distinct_update)
  have ll: "lang_list = (if support then tgt_lang (params self) else [last (tgt_lang (params self))])"
    and ne: "\<not> support \<longrightarrow> tgt_lang (params self) \<noteq> []"
    using h(1) by (auto simp: final_def bind_Inr_iff split: if_splits)
  show "set (keys X) = insert (src_lang (params self))
           (if support then set (tgt_lang (params self)) else {last (tgt_lang (params self))})"
    using k(1) dom_update[of "src_lang (params self)" x X0] by (auto simp: keys_def h(3) ll)
  show "\<not> support \<Longrightarrow> tgt_lang (params self) \<noteq> []" using ne by simp
qed


lemmas gp_eval = gp_tables_def column_def final_def first_def getitem_def keys_def bind_def
  svd_rotation_def get_group_average_def iteration_from_def mean_iteration_def
  trainer_multi_def trainer_repeat_def trainer_self_def trainer0_def params0_def Let_def

lemma repeat_fixpoint: "f x = Inr x \<Longrightarrow> repeat n f x = Inr x"
  by (induction n) (simp_all add: bind_def)

lemma bind_Inr [simp]: "bind (Inr x) f = f x"
  by (simp add: bind_def)

lemma bind_Inl [simp]: "bind (Inl e) f = Inl e"
  by (simp add: bind_def)

lemma hd_last_distinct: "distinct xs \<Longrightarrow> xs \<noteq> [] \<Longrightarrow> hd xs = last xs \<Longrightarrow> length xs = 1"
  by (cases xs) (auto split: if_splits)

lemma first_hd: "xs \<noteq> [] \<Longrightarrow> first xs = Inr (hd xs)"
  by (cases xs) (simp_all add: first_def)

lemma getitem_present: "(\<exists>v. getitem d k = Inr v) \<longleftrightarrow> k \<in> set (keys d)"
proof (cases "map_of d k")
  case None
  then have "k \<notin> fst ` set d" by (simp add: map_of_eq_None_iff)
  with None show ?thesis by (simp add: getitem_def keys_def)
next
  case (Some v)
  then have "k \<in> fst ` set d" by (metis map_of_eq_None_iff option.distinct(1))
  with Some show ?thesis by (simp add: getitem_def keys_def)
qed

lemma getitem_absent: "k \<notin> set (keys d) \<Longrightarrow> getitem d k = Inl (KeyError k)"
  by (auto simp: getitem_def keys_def map_of_eq_None_iff split: option.splits)

lemma reference_lookup:
  assumes tb: "gp_tables ops self support = Inr (X, T)"
  shows "(\<exists>G. bind (first (tgt_lang (params self))) (getitem X) = Inr G) \<longleftrightarrow>
         tgt_lang (params self) \<noteq> [] \<and>
         (support \<or> hd (tgt_lang (params self)) = last (tgt_lang (params self)) \<or>
          hd (tgt_lang (params self)) = src_lang (params self))"
proof (cases "tgt_lang (params self) = []")
  case True
  then show ?thesis by (simp add: first_def)
next
  case False
  have "(\<exists>G. getitem X (hd (tgt_lang (params self))) = Inr G) \<longleftrightarrow>
        hd (tgt_lang (params self)) \<in> set (keys X)"
    by (rule getitem_present)
  with False show ?thesis
    using gp_tables_keys(2)[OF tb] by (auto simp: first_hd)
qed

lemma first_target_points:
  assumes tb: "gp_tables ops self support = Inr (X, T)"
    and ne: "tgt_lang (params self) \<noteq> []"
    and ns: "hd (tgt_lang (params self)) \<noteq> src_lang (params self)"
    and nd: "hd (tgt_lang (params self)) \<notin> set (tl (tgt_lang (params self)))"
    and sp: "support \<or> length (tgt_lang (params self)) = 1"
  shows "\<exists>E idx G. getitem (tgt_emb self) (hd (tgt_lang (params self))) = Inr E \<and>
           column (dico self) 1 = Inr idx \<and> index_rows ops E idx = Inr G \<and>
           bind (first (tgt_lang (params self))) (getitem X) = Inr G"
proof -
  let ?tg = "tgt_lang (params self)"
  from tb obtain lang_list X0 x where
    h: "(if \<not> support then bind (final ?tg) (\<lambda>l. Inr [l]) else Inr ?tg) = Inr lang_list"
       "matched_points ops self [] 1 lang_list = Inr X0"
       "X = AList.update (src_lang (params self)) x X0"
    by (auto simp: gp_tables_def bind_Inr_iff Let_def)
  have "lang_list = hd ?tg # (if support then tl ?tg else [])"
  proof (cases support)
    case True
    with h(1) ne show ?thesis by simp
  next
    case False
    with sp obtain a where a: "?tg = [a]" by (cases ?tg) auto
    from h(1) False have "lang_list = [a]" by (simp add: final_def a)
    with False a show ?thesis by simp
  qed
  with h(2) have mp: "matched_points ops self [] 1 (hd ?tg # (if support then tl ?tg else [])) = Inr X0"
    by simp
  have "hd ?tg \<notin> set (if support then tl ?tg else [])" using nd by simp
  from matched_points_head[OF mp this] obtain E idx G where
    g: "getitem (tgt_emb self) (hd ?tg) = Inr E" "column (dico self) 1 = Inr idx"
       "index_rows ops E idx = Inr G" "map_of X0 (hd ?tg) = Some G" by blast
  have "getitem X (hd ?tg) = Inr G"
    using g(4) ns by (simp add: h(3) getitem_def update_conv')
  with g ne show ?thesis by (auto simp: first_hd)
qed

lemmas gp_eval2 = gp_eval X_multi_def T_start_def T_aligned_def



text \<open>
  C9, amended: when the tables \<open>X\<close> and \<open>T\<close> have been assembled, an initial run finds
  its starting reference exactly when the target list is not empty and support is
  enabled, or the first target language is also the last one or the source language.
  With support disabled and a first target language that is neither, the run ends
  with \<open>KeyError\<close> for that language and returns no mappings.  So an initial run that
  returns has support enabled or a first target language equal to the last one or to
  the source language; for pairwise different languages that means support enabled or
  exactly one target language.  Where the reference is found and the first target
  language is not the source language and is not named again, the reference is that
  language's embedding rows selected by column 1 of the index table.
\<close>

theorem initial_reference_lookup:
  assumes tb: "gp_tables ops self support = Inr (X, T)"
  shows "((\<exists>G. bind (first (tgt_lang (params self))) (getitem X) = Inr G) \<longleftrightarrow>
           tgt_lang (params self) \<noteq> [] \<and>
           (support \<or> hd (tgt_lang (params self)) = last (tgt_lang (params self)) \<or>
            hd (tgt_lang (params self)) = src_lang (params self)))
     \<and> (\<not> support \<and> hd (tgt_lang (params self)) \<noteq> last (tgt_lang (params self)) \<and>
          hd (tgt_lang (params self)) \<noteq> src_lang (params self) \<longrightarrow>
          generalized_procrustes ops self support True
            = Inl (KeyError (hd (tgt_lang (params self)))))
     \<and> ((\<exists>self'. generalized_procrustes ops self support True = Inr self') \<longrightarrow>
          support \<or> hd (tgt_lang (params self)) = last (tgt_lang (params self)) \<or>
          hd (tgt_lang (params self)) = src_lang (params self))
     \<and> (distinct (src_lang (params self) # tgt_lang (params self)) \<and>
          (\<exists>self'. generalized_procrustes ops self support True = Inr self') \<longrightarrow>
          support \<or> length (tgt_lang (params self)) = 1)
     \<and> (tgt_lang (params self) \<noteq> [] \<and>
          hd (tgt_lang (params self)) \<noteq> src_lang (params self) \<and>
          hd (tgt_lang (params self)) \<notin> set (tl (tgt_lang (params self))) \<and>
          (support \<or> length (tgt_lang (params self)) = 1) \<longrightarrow>
          (\<exists>E idx G. getitem (tgt_emb self) (hd (tgt_lang (params self))) = Inr E \<and>
             column (dico self) 1 = Inr idx \<and> index_rows ops E idx = Inr G \<and>
             bind (first (tgt_lang (params self))) (getitem X) = Inr G))"
proof -
  let ?tg = "tgt_lang (params self)"
  let ?src = "src_lang (params self)"
  note look = reference_lookup[OF tb]
  have run: "generalized_procrustes ops self support True =
      bind (bind (bind (first ?tg) (getitem X)) (\<lambda>G.
              bind (iteration_from ops X G T) (repeat 99 (mean_iteration ops X))))
        (\<lambda>T'. Inr (self\<lparr>mapping := write_back T' (mapping self)\<rparr>))"
    by (simp add: gp_equation tb)
  have key: "generalized_procrustes ops self support True = Inl (KeyError (hd ?tg))"
    if "\<not> support" "hd ?tg \<noteq> last ?tg" "hd ?tg \<noteq> ?src"
  proof -
    have ne: "?tg \<noteq> []" using gp_tables_keys(3)[OF tb] that(1) by simp
    have "hd ?tg \<notin> set (keys X)" using gp_tables_keys(2)[OF tb] that by simp
    then have "getitem X (hd ?tg) = Inl (KeyError (hd ?tg))" by (rule getitem_absent)
    then show ?thesis by (simp add: run first_hd[OF ne])
  qed
  have succ: "support \<or> hd ?tg = last ?tg \<or> hd ?tg = ?src"
    and succ_ne: "?tg \<noteq> []"
    if "generalized_procrustes ops self support True = Inr self'" for self'
  proof -
    from that obtain G where "bind (first ?tg) (getitem X) = Inr G"
      unfolding run by (auto simp: bind_Inr_iff)
    with look show "support \<or> hd ?tg = last ?tg \<or> hd ?tg = ?src" and "?tg \<noteq> []" by blast+
  qed
  have dist: "support \<or> length ?tg = 1"
    if "distinct (?src # ?tg)" "generalized_procrustes ops self support True = Inr self'" for self'
  proof -
    from succ[OF that(2)] succ_ne[OF that(2)] that(1)
    have "support \<or> hd ?tg = last ?tg" by (cases ?tg) auto
    with hd_last_distinct[of ?tg] that(1) succ_ne[OF that(2)] show ?thesis by auto
  qed
  from look key succ dist first_target_points[OF tb] show ?thesis by blast
qed

lemmas gp_eval3 = gp_eval2 X_pair_def T_pair_def T_pair_aligned_def T_pair_flipped_def

lemma initial_run_value:
  assumes "gp_tables ops self support = Inr (X, T)"
    and "bind (first (tgt_lang (params self))) (getitem X) = Inr G"
    and "iteration_from ops X G T = Inr T1"
    and "mean_iteration ops X T1 = Inr T1"
  shows "generalized_procrustes ops self support True
       = Inr (self\<lparr>mapping := write_back T1 (mapping self)\<rparr>)"
proof -
  have "repeat 99 (mean_iteration ops X) T1 = Inr T1"
    by (rule repeat_fixpoint[of "mean_iteration ops X" T1 99, OF assms(4)])
  then show ?thesis by (simp add: gp_equation assms)
qed

text \<open>
  C9, as the claim states it, fails: with support disabled and the target list
  \<open>es, fr, es\<close> the first target language is also the last one, so its points are
  assembled and the initial run returns mappings; with the target list \<open>en, es\<close> and
  the source language \<open>en\<close> the lookup finds the source language's points, and the run
  returns as well.
\<close>

theorem initial_run_without_support_succeeds:
  "tgt_lang (params trainer_repeat) = [''es'', ''fr'', ''es'']
   \<and> generalized_procrustes ops0 trainer_repeat False True
       = Inr (trainer_repeat\<lparr>mapping := T_aligned\<rparr>)
   \<and> tgt_lang (params trainer_self) = [''en'', ''es'']
   \<and> src_lang (params trainer_self) = ''en''
   \<and> generalized_procrustes ops0 trainer_self False True
       = Inr (trainer_self\<lparr>mapping := [(''en'', [[1]]), (''es'', [[- 1]]), (''fr'', [[1]])]\<rparr>)"
proof -
  have a: "generalized_procrustes ops0 trainer_repeat False True
       = Inr (trainer_repeat\<lparr>mapping := write_back T_pair_aligned (mapping trainer_repeat)\<rparr>)"
  proof (rule initial_run_value)
    show "gp_tables ops0 trainer_repeat False = Inr (X_pair, T_pair)"
      by (simp add: gp_eval3 ops_eval)
    show "bind (first (tgt_lang (params trainer_repeat))) (getitem X_pair) = Inr [[1], [2]]"
      by (simp add: gp_eval3)
    show "iteration_from ops0 X_pair [[1], [2]] T_pair = Inr T_pair_aligned"
      by (simp add: gp_eval3 ops_eval)
    show "mean_iteration ops0 X_pair T_pair_aligned = Inr T_pair_aligned"
      by (simp add: gp_eval3 ops_eval)
  qed
  have b: "generalized_procrustes ops0 trainer_self False True
       = Inr (trainer_self\<lparr>mapping := write_back T_pair_flipped (mapping trainer_self)\<rparr>)"
  proof (rule initial_run_value)
    show "gp_tables ops0 trainer_self False = Inr (X_pair, T_pair)"
      by (simp add: gp_eval3 ops_eval)
    show "bind (first (tgt_lang (params trainer_self))) (getitem X_pair) = Inr [[- 1], [- 2]]"
      by (simp add: gp_eval3)
    show "iteration_from ops0 X_pair [[- 1], [- 2]] T_pair = Inr T_pair_flipped"
      by (simp add: gp_eval3 ops_eval)
    show "mean_iteration ops0 X_pair T_pair_flipped = Inr T_pair_flipped"
      by (simp add: gp_eval3 ops_eval)
  qed
  have w: "write_back T_pair_aligned (mapping trainer_repeat) = T_aligned"
    "write_back T_pair_flipped (mapping trainer_self)
       = [(''en'', [[1]]), (''es'', [[- 1]]), (''fr'', [[1]])]"
    by (simp_all add: gp_eval3)
  have p: "tgt_lang (params trainer_repeat) = [''es'', ''fr'', ''es'']"
    "tgt_lang (params trainer_self) = [''en'', ''es'']" "src_lang (params trainer_self) = ''en''"
    by (simp_all add: gp_eval3)
  from a b w p show ?thesis by simp
qed

theorem initial_reference_lookup_witness:
  "gp_tables ops0 trainer_multi False
     = Inr ([(''fr'', [[2], [1]]), (''en'', [[- 1], [- 2]])], [(''en'', [[1]]), (''fr'', [[1]])])
   \<and> tgt_lang (params trainer_multi) = [''es'', ''fr'']
   \<and> generalized_procrustes ops0 trainer_multi False True = Inl (KeyError ''es'')
   \<and> gp_tables ops0 trainer0 False = Inr (X_pair, T_pair)
   \<and> tgt_lang (params trainer0) = [''es'']
   \<and> bind (first (tgt_lang (params trainer0))) (getitem X_pair) = Inr [[1], [2]]
   \<and> generalized_procrustes ops0 trainer0 False True
       = Inr (trainer0\<lparr>mapping := T_pair_aligned\<rparr>)"
proof -
  have tb: "gp_tables ops0 trainer_multi False
     = Inr ([(''fr'', [[2], [1]]), (''en'', [[- 1], [- 2]])], [(''en'', [[1]]), (''fr'', [[1]])])"
    by (simp add: gp_eval3 ops_eval)
  have p: "tgt_lang (params trainer_multi) = [''es'', ''fr'']"
    "src_lang (params trainer_multi) = ''en''"
    by (simp_all add: gp_eval3)
  from initial_reference_lookup[OF tb]
  have k: "generalized_procrustes ops0 trainer_multi False True = Inl (KeyError ''es'')"
    by (simp add: p)
  have tb0: "gp_tables ops0 trainer0 False = Inr (X_pair, T_pair)"
    by (simp add: gp_eval3 ops_eval)
  have p0: "tgt_lang (params trainer0) = [''es'']" "src_lang (params trainer0) = ''en''"
    by (simp_all add: gp_eval3)
  have m0: "getitem (tgt_emb trainer0) ''es'' = Inr [[1], [2]]"
    "column (dico trainer0) (Suc 0) = Inr [0, 1]"
    "index_rows ops0 [[1], [2]] [0, 1] = Inr [[1], [2]]"
    by (simp_all add: gp_eval3 ops_eval)
  from initial_reference_lookup[OF tb0]
  have r0: "bind (first (tgt_lang (params trainer0))) (getitem X_pair) = Inr [[1], [2]]"
    by (auto simp: p0 m0)
  have s0: "generalized_procrustes ops0 trainer0 False True
       = Inr (trainer0\<lparr>mapping := write_back T_pair_aligned (mapping trainer0)\<rparr>)"
  proof (rule initial_run_value[OF tb0 r0])
    show "iteration_from ops0 X_pair [[1], [2]] T_pair = Inr T_pair_aligned"
      by (simp add: gp_eval3 ops_eval)
    show "mean_iteration ops0 X_pair T_pair_aligned = Inr T_pair_aligned"
      by (simp add: gp_eval3 ops_eval)
  qed
  have w: "write_back T_pair_aligned (mapping trainer0) = T_pair_aligned"
    by (simp add: gp_eval3)
  from tb p k tb0 p0 r0 s0 w show ?thesis by simp
qed

section \<open>Facts about the two-space Procrustes solver\<close>

text \<open>
  The two-space solver: \<open>simple_procrustes\<close> returns exactly when every subscript and
  library call succeeds, and then it has replaced the mapping of the source language by
  \<open>U.dot(V_t)\<close> copied over it, where \<open>U, S, V_t\<close> is the SVD of \<open>M = B\<^sup>T A\<close>, \<open>A\<close> the source rows
  selected by column 0 of the index table and \<open>B\<close> the rows of the last target language
  selected by column 1; nothing else in the trainer changes.
\<close>

theorem simple_procrustes_solution:
  "simple_procrustes ops self = Inr self' \<longleftrightarrow>
     (\<exists>i0 A l E i1 B W M U S V_t R W'.
        column (dico self) 0 = Inr i0 \<and> index_rows ops (src_emb self) i0 = Inr A \<and>
        final (tgt_lang (params self)) = Inr l \<and> getitem (tgt_emb self) l = Inr E \<and>
        column (dico self) 1 = Inr i1 \<and> index_rows ops E i1 = Inr B \<and>
        getitem (mapping self) (src_lang (params self)) = Inr W \<and>
        mm ops (transpose ops B) A = Inr M \<and> svd ops M = Inr (U, S, V_t) \<and>
        dot ops U V_t = Inr R \<and> copy_from ops W R = Inr W' \<and>
        self' = self\<lparr>mapping := AList.update (src_lang (params self)) W' (mapping self)\<rparr>)"
  unfolding simple_procrustes_def svd_rotation_def bind_Inr_iff
  by (auto simp: bind_Inr_iff)

theorem simple_procrustes_solution_witness:
  "simple_procrustes ops0 trainer_same = Inr trainer_same
   \<and> getitem (mapping trainer_same) ''en'' = Inr [[1]]
   \<and> simple_procrustes ops0 trainer0 = Inr (trainer0\<lparr>mapping := T_pair_aligned\<rparr>)"
proof -
  have e: "simple_procrustes ops0 trainer_same
      = Inr (trainer_same\<lparr>mapping := AList.update (src_lang (params trainer_same)) [[1]]
           (mapping trainer_same)\<rparr>)"
    unfolding simple_procrustes_solution
    by (simp add: trainer_same_def gp_eval3 ops_eval)
  have e0: "simple_procrustes ops0 trainer0
      = Inr (trainer0\<lparr>mapping := AList.update (src_lang (params trainer0)) [[- 1]]
           (mapping trainer0)\<rparr>)"
    unfolding simple_procrustes_solution
    by (simp add: gp_eval3 ops_eval)
  show ?thesis
    unfolding e e0 by (simp add: trainer_same_def gp_eval3)
qed

end
